theory Spec2Isabelle
  imports Main
begin

section \<open>DevOS: processes, memory accounting and files\<close>

text \<open>
  A shallow embedding of \<^verbatim>\<open>src/code.py\<close>. Every class is a record of the attributes
  its \<^verbatim>\<open>__init__\<close> binds, every method a function that takes \<^verbatim>\<open>self\<close> and returns
  the updated object; a raised exception is a value of \<open>error\<close>. Python's integers are
  \<open>int\<close>, its strings are \<open>string\<close>; the content of a file is a list of code points,
  since what a file can hold depends on characters beyond the 8-bit ones. \<open>OSError\<close>
  stands for itself and for its subclasses (\<^verbatim>\<open>FileNotFoundError\<close>,
  \<^verbatim>\<open>IsADirectoryError\<close>, \<^verbatim>\<open>PermissionError\<close>).
\<close>

datatype error =
    NameError
  | TypeError
  | AttributeError
  | DuplicateProcess
  | UnknownProcess
  | OSError
  | ValueError
  | UnicodeEncodeError

subsection \<open>Process\<close>

record Process =
  pid :: int
  name :: string
  status :: string

definition Process_init :: "int \<Rightarrow> string \<Rightarrow> Process" where
  "Process_init p n = \<lparr>pid = p, name = n, status = ''running''\<rparr>"

definition Process_terminate :: "Process \<Rightarrow> Process" where
  "Process_terminate self = self\<lparr>status := ''terminated''\<rparr>"

subsection \<open>MemoryManager\<close>

text \<open>
  \<^verbatim>\<open>__init__\<close> binds two instance attributes, \<^verbatim>\<open>total_memory\<close> and
  \<^verbatim>\<open>free_memory\<close>, both to the integer it is given. No method deletes either, so an
  instance is the record of the two.
\<close>

record MemoryManager =
  total_memory :: int
  free_memory :: int

definition MemoryManager_init :: "int \<Rightarrow> MemoryManager" where
  "MemoryManager_init amount = \<lparr>total_memory = amount, free_memory = amount\<rparr>"

text \<open>
  The bodies of the two functions the class defines besides \<^verbatim>\<open>__init__\<close>. Inside them
  \<^verbatim>\<open>self.free_memory\<close> reads and writes the instance attribute. Neither uses its
  \<^verbatim>\<open>process\<close> argument.
\<close>

definition MemoryManager_allocate_memory ::
  "MemoryManager \<Rightarrow> Process \<Rightarrow> int \<Rightarrow> bool \<times> MemoryManager" where
  "MemoryManager_allocate_memory self process memory_required =
     (if memory_required \<le> free_memory self
      then (True, self\<lparr>free_memory := free_memory self - memory_required\<rparr>)
      else (False, self))"

definition MemoryManager_free_memory ::
  "MemoryManager \<Rightarrow> Process \<Rightarrow> int \<Rightarrow> MemoryManager" where
  "MemoryManager_free_memory self process memory_to_free =
     self\<lparr>free_memory := free_memory self + memory_to_free\<rparr>"

text \<open>
  Attribute access on an instance, \<^verbatim>\<open>obj.attr\<close>: the instance dictionary is searched
  first, then the class (a plain function in a class is not a data descriptor, so it has
  no priority over the instance dictionary); a name in neither raises
  \<^verbatim>\<open>AttributeError\<close>. The names every object inherits from \<^verbatim>\<open>object\<close> are left out:
  the source asks for none of them.
\<close>

datatype function_name = Fn_init | Fn_allocate_memory | Fn_free_memory

datatype member = Attribute int | Method function_name

datatype retval = Bool_val bool | None_val

definition MemoryManager_instance_dict :: "MemoryManager \<Rightarrow> string \<rightharpoonup> int" where
  "MemoryManager_instance_dict self =
     [''total_memory'' \<mapsto> total_memory self, ''free_memory'' \<mapsto> free_memory self]"

definition MemoryManager_class_dict :: "string \<rightharpoonup> function_name" where
  "MemoryManager_class_dict =
     [''__init__'' \<mapsto> Fn_init,
      ''allocate_memory'' \<mapsto> Fn_allocate_memory,
      ''free_memory'' \<mapsto> Fn_free_memory]"

definition MemoryManager_getattr :: "MemoryManager \<Rightarrow> string \<Rightarrow> error + member" where
  "MemoryManager_getattr self attr =
     (case MemoryManager_instance_dict self attr of
        Some v \<Rightarrow> Inr (Attribute v)
      | None \<Rightarrow>
          (case MemoryManager_class_dict attr of
             Some f \<Rightarrow> Inr (Method f)
           | None \<Rightarrow> Inl AttributeError))"

text \<open>
  Calling one of the class's functions on \<^verbatim>\<open>self\<close> with the two arguments
  \<^verbatim>\<open>(process, amount)\<close>, as both call sites in \<^verbatim>\<open>DevOS\<close> do. \<^verbatim>\<open>__init__\<close> takes one
  argument besides \<^verbatim>\<open>self\<close>, so two raise \<^verbatim>\<open>TypeError\<close>.
\<close>

fun apply_function ::
  "function_name \<Rightarrow> MemoryManager \<Rightarrow> Process \<Rightarrow> int \<Rightarrow> (error + retval) \<times> MemoryManager" where
  "apply_function Fn_init self process amount = (Inl TypeError, self)"
| "apply_function Fn_allocate_memory self process amount =
     (case MemoryManager_allocate_memory self process amount of
        (granted, self') \<Rightarrow> (Inr (Bool_val granted), self'))"
| "apply_function Fn_free_memory self process amount =
     (Inr None_val, MemoryManager_free_memory self process amount)"

text \<open>
  \<^verbatim>\<open>obj.attr(process, amount)\<close>: look the attribute up on the instance, then call what
  was found. An integer is not callable: \<^verbatim>\<open>TypeError\<close>.
\<close>

definition MemoryManager_instance_call ::
  "MemoryManager \<Rightarrow> string \<Rightarrow> Process \<Rightarrow> int \<Rightarrow> (error + retval) \<times> MemoryManager" where
  "MemoryManager_instance_call self attr process amount =
     (case MemoryManager_getattr self attr of
        Inl e \<Rightarrow> (Inl e, self)
      | Inr (Attribute v) \<Rightarrow> (Inl TypeError, self)
      | Inr (Method f) \<Rightarrow> apply_function f self process amount)"

subsection \<open>ProcessManager\<close>

text \<open>
  Modelled from the spec: the class \<^verbatim>\<open>ProcessManager\<close>, which \<^verbatim>\<open>DevOS\<close> instantiates
  and calls (\<^verbatim>\<open>add_process\<close>, \<^verbatim>\<open>remove_process\<close>) but which the source never
  defines. The spec's ProcessRegistry (section 4.2) stands in for it: a mapping from
  process identifier to process; \<^verbatim>\<open>add\<close> inserts by identifier and fails with
  \<^verbatim>\<open>DuplicateProcess\<close> when the identifier is already there; \<^verbatim>\<open>remove\<close> deletes the
  entry, fails with \<^verbatim>\<open>UnknownProcess\<close> when it is absent, and leaves the process's
  status alone.
\<close>

type_synonym ProcessManager = "int \<rightharpoonup> Process"

definition ProcessManager_init :: ProcessManager where
  "ProcessManager_init = Map.empty"

definition ProcessManager_add_process ::
  "ProcessManager \<Rightarrow> Process \<Rightarrow> error + ProcessManager" where
  "ProcessManager_add_process self process =
     (case self (pid process) of
        Some registered \<Rightarrow> Inl DuplicateProcess
      | None \<Rightarrow> Inr (self(pid process \<mapsto> process)))"

definition ProcessManager_remove_process ::
  "ProcessManager \<Rightarrow> Process \<Rightarrow> error + ProcessManager" where
  "ProcessManager_remove_process self process =
     (case self (pid process) of
        None \<Rightarrow> Inl UnknownProcess
      | Some registered \<Rightarrow> Inr (self(pid process := None)))"

subsection \<open>FileSystem\<close>





record FileSystem =
  root_directory :: string

definition FileSystem_init :: "string \<Rightarrow> FileSystem" where
  "FileSystem_init root = \<lparr>root_directory = root\<rparr>"


abbreviation CR :: nat where "CR \<equiv> 13"
abbreviation LF :: nat where "LF \<equiv> 10"



fun universal_newlines :: "nat list \<Rightarrow> nat list" where
  "universal_newlines [] = []"
| "universal_newlines [c] = (if c = CR then [LF] else [c])"
| "universal_newlines (c # d # cs) =
     (if c = CR then
        (if d = LF then LF # universal_newlines cs else LF # universal_newlines (d # cs))
      else c # universal_newlines (d # cs))"




subsection \<open>DevOS\<close>

record DevOS =
  process_manager :: ProcessManager
  memory_manager :: MemoryManager
  file_system :: FileSystem

text \<open>
  A name in a function body that is no local is looked up in the module's globals when
  the body runs. Beside the names every module has (\<^verbatim>\<open>__name__\<close> and the like), the
  module binds the two imports and the four classes it defines; the built-in names,
  searched after the globals, hold nothing the lookups below ask for.
  \<open>Registry_class\<close> is the class of the subsection above, bound in no namespace of the
  source.
\<close>

datatype binding = Module | Source_class | Registry_class

definition module_globals :: "string \<rightharpoonup> binding" where
  "module_globals =
     [''os'' \<mapsto> Module,
      ''time'' \<mapsto> Module,
      ''Process'' \<mapsto> Source_class,
      ''MemoryManager'' \<mapsto> Source_class,
      ''FileSystem'' \<mapsto> Source_class,
      ''DevOS'' \<mapsto> Source_class]"

definition lookup_name :: "(string \<rightharpoonup> binding) \<Rightarrow> string \<Rightarrow> error + binding" where
  "lookup_name globals n = (case globals n of None \<Rightarrow> Inl NameError | Some b \<Rightarrow> Inr b)"

text \<open>
  Calling what a name is bound to with no argument, as \<^verbatim>\<open>ProcessManager()\<close> does: a
  module is not callable, and each of the source's four constructors needs arguments.
\<close>

fun call_without_arguments :: "binding \<Rightarrow> error + ProcessManager" where
  "call_without_arguments Module = Inl TypeError"
| "call_without_arguments Source_class = Inl TypeError"
| "call_without_arguments Registry_class = Inr ProcessManager_init"

definition DevOS_init :: "(string \<rightharpoonup> binding) \<Rightarrow> int \<Rightarrow> string \<Rightarrow> error + DevOS" where
  "DevOS_init globals amount root =
     (case lookup_name globals ''ProcessManager'' of
        Inl e \<Rightarrow> Inl e
      | Inr b \<Rightarrow>
          (case call_without_arguments b of
             Inl e \<Rightarrow> Inl e
           | Inr pm \<Rightarrow>
               Inr \<lparr>process_manager = pm,
                    memory_manager = MemoryManager_init amount,
                    file_system = FileSystem_init root\<rparr>))"

text \<open>
  What a call on the supervisor leaves behind: the exception it raised, if any, the
  supervisor and the process object as they are afterwards (an exception undoes nothing
  done before it), and the lines printed. Objects are held by value. The one mutation of
  a process, in \<^verbatim>\<open>terminate_process\<close>, comes after its entry has left the registry, so
  no copy in the registry goes stale.
\<close>

record outcome =
  raised :: "error option"
  devos :: DevOS
  proc :: Process
  printed :: "string list"

fun truthy :: "retval \<Rightarrow> bool" where
  "truthy (Bool_val b) = b"
| "truthy None_val = False"

definition running_message :: "Process \<Rightarrow> string" where
  "running_message process = ''Running process: '' @ name process"

definition rejection_message :: "Process \<Rightarrow> string" where
  "rejection_message process =
     ''Unable to run process: '' @ name process @ '' (insufficient memory)''"

definition terminated_message :: "Process \<Rightarrow> string" where
  "terminated_message process = ''Terminated process: '' @ name process"

definition DevOS_run_process :: "DevOS \<Rightarrow> Process \<Rightarrow> outcome" where
  "DevOS_run_process self process =
     (case MemoryManager_instance_call (memory_manager self) ''allocate_memory'' process 1024 of
        (Inl e, mm) \<Rightarrow>
          \<lparr>raised = Some e, devos = self\<lparr>memory_manager := mm\<rparr>,
           proc = process, printed = []\<rparr>
      | (Inr granted, mm) \<Rightarrow>
          if truthy granted then
            (case ProcessManager_add_process (process_manager self) process of
               Inl e \<Rightarrow>
                 \<lparr>raised = Some e, devos = self\<lparr>memory_manager := mm\<rparr>,
                  proc = process, printed = []\<rparr>
             | Inr pm \<Rightarrow>
                 \<lparr>raised = None,
                  devos = self\<lparr>memory_manager := mm, process_manager := pm\<rparr>,
                  proc = process, printed = [running_message process]\<rparr>)
          else
            \<lparr>raised = None, devos = self\<lparr>memory_manager := mm\<rparr>,
             proc = process, printed = [rejection_message process]\<rparr>)"

definition DevOS_terminate_process :: "DevOS \<Rightarrow> Process \<Rightarrow> outcome" where
  "DevOS_terminate_process self process =
     (case MemoryManager_instance_call (memory_manager self) ''free_memory'' process 1024 of
        (Inl e, mm) \<Rightarrow>
          \<lparr>raised = Some e, devos = self\<lparr>memory_manager := mm\<rparr>,
           proc = process, printed = []\<rparr>
      | (Inr released, mm) \<Rightarrow>
          (case ProcessManager_remove_process (process_manager self) process of
             Inl e \<Rightarrow>
               \<lparr>raised = Some e, devos = self\<lparr>memory_manager := mm\<rparr>,
                proc = process, printed = []\<rparr>
           | Inr pm \<Rightarrow>
               \<lparr>raised = None,
                devos = self\<lparr>memory_manager := mm, process_manager := pm\<rparr>,
                proc = Process_terminate process,
                printed = [terminated_message process]\<rparr>))"

subsection \<open>Scripts\<close>

text \<open>
  The \<^verbatim>\<open>__main__\<close> block builds a supervisor, binds processes to variables and calls
  \<^verbatim>\<open>devos.run_process(v)\<close> and \<^verbatim>\<open>devos.terminate_process(v)\<close> on them. A script is a
  list of such calls; it stops at the first exception, which nothing catches.
\<close>

datatype stmt = Run_process string | Terminate_process string

record session =
  supervisor :: DevOS
  variables :: "string \<rightharpoonup> Process"
  stdout :: "string list"

definition after_call :: "session \<Rightarrow> string \<Rightarrow> outcome \<Rightarrow> error option \<times> session" where
  "after_call s v out =
     (raised out,
      \<lparr>supervisor = devos out,
       variables = (variables s)(v \<mapsto> proc out),
       stdout = stdout s @ printed out\<rparr>)"

fun exec :: "stmt \<Rightarrow> session \<Rightarrow> error option \<times> session" where
  "exec (Run_process v) s =
     (case variables s v of
        None \<Rightarrow> (Some NameError, s)
      | Some process \<Rightarrow> after_call s v (DevOS_run_process (supervisor s) process))"
| "exec (Terminate_process v) s =
     (case variables s v of
        None \<Rightarrow> (Some NameError, s)
      | Some process \<Rightarrow> after_call s v (DevOS_terminate_process (supervisor s) process))"

fun run :: "stmt list \<Rightarrow> session \<Rightarrow> error option \<times> session" where
  "run [] s = (None, s)"
| "run (st # rest) s =
     (case exec st s of
        (Some e, s') \<Rightarrow> (Some e, s')
      | (None, s') \<Rightarrow> run rest s')"

datatype ending = Not_constructed error | Stopped error session | Completed session

definition scenario ::
  "(string \<rightharpoonup> binding) \<Rightarrow> int \<Rightarrow> (string \<times> Process) list \<Rightarrow> stmt list \<Rightarrow> ending" where
  "scenario globals amount processes script =
     (case DevOS_init globals amount ''/'' of
        Inl e \<Rightarrow> Not_constructed e
      | Inr d \<Rightarrow>
          (case run script \<lparr>supervisor = d, variables = map_of processes, stdout = []\<rparr> of
             (Some e, s) \<Rightarrow> Stopped e s
           | (None, s) \<Rightarrow> Completed s))"

text \<open>
  The module's globals with \<^verbatim>\<open>ProcessManager\<close> bound to the registry class: what the
  source would run in once the missing class is supplied.
\<close>

definition globals_with_registry :: "string \<rightharpoonup> binding" where
  "globals_with_registry = module_globals(''ProcessManager'' \<mapsto> Registry_class)"


section \<open>Properties\<close>

subsection \<open>Attribute lookup and the two calls the supervisor makes\<close>

lemma getattr_free_memory:
  "MemoryManager_getattr self ''free_memory'' = Inr (Attribute (free_memory self))"
  by (simp add: MemoryManager_getattr_def MemoryManager_instance_dict_def)

lemma getattr_allocate_memory:
  "MemoryManager_getattr self ''allocate_memory'' = Inr (Method Fn_allocate_memory)"
  by (simp add: MemoryManager_getattr_def MemoryManager_instance_dict_def
        MemoryManager_class_dict_def)

lemma instance_call_free_memory:
  "MemoryManager_instance_call self ''free_memory'' process amount = (Inl TypeError, self)"
  by (simp add: MemoryManager_instance_call_def getattr_free_memory)

lemma instance_call_allocate_memory:
  "MemoryManager_instance_call self ''allocate_memory'' process amount =
     (if amount \<le> free_memory self
      then (Inr (Bool_val True), self\<lparr>free_memory := free_memory self - amount\<rparr>)
      else (Inr (Bool_val False), self))"
  by (simp add: MemoryManager_instance_call_def getattr_allocate_memory
        MemoryManager_allocate_memory_def)

lemma terminate_process_raises:
  "DevOS_terminate_process self process =
     \<lparr>raised = Some TypeError, devos = self, proc = process, printed = []\<rparr>"
  by (simp add: DevOS_terminate_process_def instance_call_free_memory)

lemma run_process_rejects:
  assumes "free_memory (memory_manager self) < 1024"
  shows "DevOS_run_process self process =
           \<lparr>raised = None, devos = self, proc = process,
            printed = [rejection_message process]\<rparr>"
  using assms by (simp add: DevOS_run_process_def instance_call_allocate_memory)

lemma run_process_admits:
  assumes "1024 \<le> free_memory (memory_manager self)"
    and "process_manager self (pid process) = None"
  shows "DevOS_run_process self process =
           \<lparr>raised = None,
            devos = self
              \<lparr>memory_manager :=
                 (memory_manager self)\<lparr>free_memory := free_memory (memory_manager self) - 1024\<rparr>,
               process_manager := (process_manager self)(pid process \<mapsto> process)\<rparr>,
            proc = process,
            printed = [running_message process]\<rparr>"
  using assms
  by (simp add: DevOS_run_process_def instance_call_allocate_memory
        ProcessManager_add_process_def)

text \<open>With the registry class supplied, construction succeeds and nothing is allocated.\<close>

lemma DevOS_init_with_registry:
  "DevOS_init globals_with_registry amount root =
     Inr \<lparr>process_manager = ProcessManager_init,
          memory_manager = \<lparr>total_memory = amount, free_memory = amount\<rparr>,
          file_system = \<lparr>root_directory = root\<rparr>\<rparr>"
  by (simp add: DevOS_init_def lookup_name_def globals_with_registry_def
        MemoryManager_init_def FileSystem_init_def)

lemmas scenario_simps =
  scenario_def DevOS_init_def lookup_name_def module_globals_def globals_with_registry_def
  ProcessManager_init_def MemoryManager_init_def FileSystem_init_def Process_init_def
  after_call_def terminate_process_raises DevOS_run_process_def
  instance_call_allocate_memory ProcessManager_add_process_def
  running_message_def rejection_message_def

subsection \<open>Allocation\<close>

text \<open>
  C1. For an allocator with \<open>0 \<le> free\<close> and an amount \<open>\<ge> 0\<close>, \<^verbatim>\<open>allocate_memory\<close>
  grants exactly when the amount is at most the free capacity. A grant returns true and
  takes the amount off the free capacity; a refusal returns false and leaves the
  allocator, free and total, as it was. The total never changes and the free capacity
  stays between 0 and what it was, so nothing is granted in part.
\<close>

theorem allocate_memory_grant_or_refuse:
  assumes "0 \<le> free_memory self" and "0 \<le> amount"
  shows "(amount \<le> free_memory self \<longrightarrow>
            MemoryManager_allocate_memory self process amount =
              (True, self\<lparr>free_memory := free_memory self - amount\<rparr>)) \<and>
         (\<not> amount \<le> free_memory self \<longrightarrow>
            MemoryManager_allocate_memory self process amount = (False, self)) \<and>
         total_memory (snd (MemoryManager_allocate_memory self process amount)) =
           total_memory self \<and>
         0 \<le> free_memory (snd (MemoryManager_allocate_memory self process amount)) \<and>
         free_memory (snd (MemoryManager_allocate_memory self process amount))
           \<le> free_memory self"
  using assms by (simp add: MemoryManager_allocate_memory_def)

theorem allocate_memory_grant_or_refuse_witness:
  "MemoryManager_allocate_memory \<lparr>total_memory = 4096, free_memory = 2048\<rparr>
      (Process_init 1 ''Process 1'') 1024
     = (True, \<lparr>total_memory = 4096, free_memory = 1024\<rparr>) \<and>
   MemoryManager_allocate_memory \<lparr>total_memory = 4096, free_memory = 512\<rparr>
      (Process_init 1 ''Process 1'') 1024
     = (False, \<lparr>total_memory = 4096, free_memory = 512\<rparr>)"
  using allocate_memory_grant_or_refuse
          [of "\<lparr>total_memory = 4096, free_memory = 2048\<rparr>" 1024 "Process_init 1 ''Process 1''"]
        allocate_memory_grant_or_refuse
          [of "\<lparr>total_memory = 4096, free_memory = 512\<rparr>" 1024 "Process_init 1 ''Process 1''"]
  by simp

subsection \<open>Release\<close>

text \<open>
  C7. Release on an instance, the only way the source invokes it (line 141): on an
  allocator with 3072 of 4096 free, \<^verbatim>\<open>free_memory(process, 1024)\<close> raises \<^verbatim>\<open>TypeError\<close>
  and the free capacity is still 3072. The function body, which the call never reaches,
  would have made it 4096.
\<close>

theorem release_on_instance_raises:
  "MemoryManager_instance_call \<lparr>total_memory = 4096, free_memory = 3072\<rparr> ''free_memory''
     \<lparr>pid = 1, name = ''Process 1'', status = ''running''\<rparr> 1024 =
     (Inl TypeError, \<lparr>total_memory = 4096, free_memory = 3072\<rparr>) \<and>
   MemoryManager_free_memory \<lparr>total_memory = 4096, free_memory = 3072\<rparr>
     \<lparr>pid = 1, name = ''Process 1'', status = ''running''\<rparr> 1024 =
     \<lparr>total_memory = 4096, free_memory = 4096\<rparr>"
  by (simp add: instance_call_free_memory MemoryManager_free_memory_def)

text \<open>
  C3. \<^verbatim>\<open>__init__\<close> binds \<^verbatim>\<open>free_memory\<close> on the instance to the integer it is given,
  while the class binds the same name to the function. On every instance the name
  therefore yields the integer, calling it with \<^verbatim>\<open>(process, amount)\<close> raises
  \<^verbatim>\<open>TypeError\<close> and leaves the allocator as it was, and \<^verbatim>\<open>terminate_process\<close>, which
  makes that call first, raises \<^verbatim>\<open>TypeError\<close> with nothing released, removed, marked or
  printed.
\<close>

theorem free_memory_attribute_shadows_method:
  "MemoryManager_getattr (MemoryManager_init total_amount) ''free_memory'' =
     Inr (Attribute total_amount) \<and>
   MemoryManager_class_dict ''free_memory'' = Some Fn_free_memory \<and>
   MemoryManager_getattr self ''free_memory'' = Inr (Attribute (free_memory self)) \<and>
   MemoryManager_instance_call self ''free_memory'' process amount = (Inl TypeError, self) \<and>
   DevOS_terminate_process d process =
     \<lparr>raised = Some TypeError, devos = d, proc = process, printed = []\<rparr>"
  by (simp add: getattr_free_memory instance_call_free_memory terminate_process_raises
        MemoryManager_init_def MemoryManager_class_dict_def)

subsection \<open>Construction\<close>

text \<open>
  C4. \<^verbatim>\<open>ProcessManager\<close> is bound nowhere in the module, so \<^verbatim>\<open>DevOS(total, root)\<close>
  raises \<^verbatim>\<open>NameError\<close> for every total and every root directory, and returns no
  instance.
\<close>

theorem DevOS_init_raises_NameError:
  "module_globals ''ProcessManager'' = None \<and>
   DevOS_init module_globals amount root = Inl NameError"
  by (simp add: DevOS_init_def lookup_name_def module_globals_def)

subsection \<open>Admission\<close>

text \<open>
  C6. When allocating the quota of 1024 fails, that is when the free capacity is below
  1024, \<^verbatim>\<open>run_process\<close> changes nothing: the supervisor afterwards is the supervisor
  before (same free capacity, same total, same registry, so the process is not added),
  the process object is the one passed in with its status as it was, no exception is
  raised, and the one line printed is the rejection that cites insufficient memory.
\<close>

theorem run_process_rejection_changes_nothing:
  assumes "free_memory (memory_manager self) < 1024"
  shows "DevOS_run_process self process =
           \<lparr>raised = None, devos = self, proc = process,
            printed =
              [''Unable to run process: '' @ name process @ '' (insufficient memory)'']\<rparr> \<and>
         free_memory (memory_manager (devos (DevOS_run_process self process))) =
           free_memory (memory_manager self) \<and>
         process_manager (devos (DevOS_run_process self process)) = process_manager self \<and>
         status (proc (DevOS_run_process self process)) = status process"
  using assms by (simp add: run_process_rejects rejection_message_def)

theorem run_process_rejection_changes_nothing_witness:
  "DevOS_run_process
     \<lparr>process_manager = ProcessManager_init,
      memory_manager = \<lparr>total_memory = 1024, free_memory = 1023\<rparr>,
      file_system = \<lparr>root_directory = ''/''\<rparr>\<rparr>
     \<lparr>pid = 2, name = ''Process 2'', status = ''running''\<rparr> =
   \<lparr>raised = None,
    devos =
      \<lparr>process_manager = ProcessManager_init,
       memory_manager = \<lparr>total_memory = 1024, free_memory = 1023\<rparr>,
       file_system = \<lparr>root_directory = ''/''\<rparr>\<rparr>,
    proc = \<lparr>pid = 2, name = ''Process 2'', status = ''running''\<rparr>,
    printed = [''Unable to run process: Process 2 (insufficient memory)'']\<rparr>"
  using run_process_rejection_changes_nothing
          [of "\<lparr>process_manager = ProcessManager_init,
                memory_manager = \<lparr>total_memory = 1024, free_memory = 1023\<rparr>,
                file_system = \<lparr>root_directory = ''/''\<rparr>\<rparr>"
              "\<lparr>pid = 2, name = ''Process 2'', status = ''running''\<rparr>"]
  by simp

lemma exec_run_process_rejects:
  assumes "free_memory (memory_manager (supervisor s)) = 0"
    and "variables s v = Some p"
  shows "exec (Run_process v) s = (None, s\<lparr>stdout := stdout s @ [rejection_message p]\<rparr>)"
  using assms by (simp add: run_process_rejects after_call_def map_upd_triv)

text \<open>
  C9. With no free capacity, every call of \<^verbatim>\<open>run_process\<close> in a row is rejected,
  however many follow: for variables \<open>vs\<close> bound to processes \<open>ps\<close>, the calls raise
  nothing and leave the session as it was but for one rejection line per process. So the
  free capacity is still 0, the registry is the same and holds none of the rejected
  processes it did not hold before. The script holds \<^verbatim>\<open>run_process\<close> calls only: this
  is the stretch before any \<^verbatim>\<open>terminate_process\<close>.
\<close>

theorem run_process_all_rejected_without_free_memory:
  assumes "free_memory (memory_manager (supervisor s)) = 0"
    and "map (variables s) vs = map Some ps"
  shows "run (map Run_process vs) s =
           (None, s\<lparr>stdout := stdout s @ map rejection_message ps\<rparr>)"
  using assms
proof (induction vs arbitrary: s ps)
  case Nil
  then show ?case by simp
next
  case (Cons v vs)
  then obtain p ps' where ps: "ps = p # ps'" and v: "variables s v = Some p"
    and rest: "map (variables s) vs = map Some ps'"
    by (cases ps) auto
  let ?s' = "s\<lparr>stdout := stdout s @ [rejection_message p]\<rparr>"
  have step: "exec (Run_process v) s = (None, ?s')"
    using Cons.prems(1) v by (rule exec_run_process_rejects)
  have "run (map Run_process vs) ?s' =
          (None, ?s'\<lparr>stdout := stdout ?s' @ map rejection_message ps'\<rparr>)"
    using Cons.prems(1) rest by (intro Cons.IH) simp_all
  then show ?case using step ps by simp
qed

text \<open>
  Scenario B as the instance: total 1024, \<^verbatim>\<open>process1\<close> admitted, free capacity 0; then
  \<^verbatim>\<open>process2\<close> and \<^verbatim>\<open>process3\<close> are both rejected.
\<close>

theorem run_process_all_rejected_without_free_memory_witness:
  "run [Run_process ''process2'', Run_process ''process3'']
     \<lparr>supervisor =
        \<lparr>process_manager = [1 \<mapsto> Process_init 1 ''Process 1''],
         memory_manager = \<lparr>total_memory = 1024, free_memory = 0\<rparr>,
         file_system = \<lparr>root_directory = ''/''\<rparr>\<rparr>,
      variables =
        [''process1'' \<mapsto> Process_init 1 ''Process 1'',
         ''process2'' \<mapsto> Process_init 2 ''Process 2'',
         ''process3'' \<mapsto> Process_init 3 ''Process 3''],
      stdout = [''Running process: Process 1'']\<rparr> =
   (None,
    \<lparr>supervisor =
        \<lparr>process_manager = [1 \<mapsto> Process_init 1 ''Process 1''],
         memory_manager = \<lparr>total_memory = 1024, free_memory = 0\<rparr>,
         file_system = \<lparr>root_directory = ''/''\<rparr>\<rparr>,
      variables =
        [''process1'' \<mapsto> Process_init 1 ''Process 1'',
         ''process2'' \<mapsto> Process_init 2 ''Process 2'',
         ''process3'' \<mapsto> Process_init 3 ''Process 3''],
      stdout =
        [''Running process: Process 1'',
         ''Unable to run process: Process 2 (insufficient memory)'',
         ''Unable to run process: Process 3 (insufficient memory)'']\<rparr>)"
  using run_process_all_rejected_without_free_memory
          [of "\<lparr>supervisor =
                  \<lparr>process_manager = [1 \<mapsto> Process_init 1 ''Process 1''],
                   memory_manager = \<lparr>total_memory = 1024, free_memory = 0\<rparr>,
                   file_system = \<lparr>root_directory = ''/''\<rparr>\<rparr>,
                variables =
                  [''process1'' \<mapsto> Process_init 1 ''Process 1'',
                   ''process2'' \<mapsto> Process_init 2 ''Process 2'',
                   ''process3'' \<mapsto> Process_init 3 ''Process 3''],
                stdout = [''Running process: Process 1'']\<rparr>"
              "[''process2'', ''process3'']"
              "[Process_init 2 ''Process 2'', Process_init 3 ''Process 3'']"]
  by (simp add: rejection_message_def Process_init_def)

text \<open>
  Scenario B from the start, with the registry class supplied: the first admission takes
  the whole capacity, the second is rejected and \<^verbatim>\<open>process2\<close> is not registered.
\<close>

lemma scenario_B:
  "\<exists>s. scenario globals_with_registry 1024
          [(''process1'', Process_init 1 ''Process 1''),
           (''process2'', Process_init 2 ''Process 2'')]
          [Run_process ''process1'', Run_process ''process2''] = Completed s \<and>
        free_memory (memory_manager (supervisor s)) = 0 \<and>
        process_manager (supervisor s) 1 = Some (Process_init 1 ''Process 1'') \<and>
        process_manager (supervisor s) 2 = None \<and>
        stdout s =
          [''Running process: Process 1'',
           ''Unable to run process: Process 2 (insufficient memory)'']"
  by (simp add: scenario_simps)

subsection \<open>Termination\<close>

text \<open>
  C2. \<^verbatim>\<open>terminate_process\<close> is written as release, then remove, then mark, then print.
  Run on a supervisor that holds \<^verbatim>\<open>process1\<close> with 3072 of 4096 free, it stops in
  the first step: \<^verbatim>\<open>TypeError\<close> is raised, the free capacity is still 3072, the process
  is still registered, its status is still \<^verbatim>\<open>running\<close> and nothing is printed.
\<close>

theorem terminate_process_stops_at_release:
  "DevOS_terminate_process
     \<lparr>process_manager = [1 \<mapsto> \<lparr>pid = 1, name = ''Process 1'', status = ''running''\<rparr>],
      memory_manager = \<lparr>total_memory = 4096, free_memory = 3072\<rparr>,
      file_system = \<lparr>root_directory = ''/''\<rparr>\<rparr>
     \<lparr>pid = 1, name = ''Process 1'', status = ''running''\<rparr> =
   \<lparr>raised = Some TypeError,
    devos =
      \<lparr>process_manager = [1 \<mapsto> \<lparr>pid = 1, name = ''Process 1'', status = ''running''\<rparr>],
       memory_manager = \<lparr>total_memory = 4096, free_memory = 3072\<rparr>,
       file_system = \<lparr>root_directory = ''/''\<rparr>\<rparr>,
    proc = \<lparr>pid = 1, name = ''Process 1'', status = ''running''\<rparr>,
    printed = []\<rparr>"
  by (simp add: terminate_process_raises)

text \<open>
  C5. One admission followed by the termination of the same process, on a total of
  4096. As the source stands the supervisor is not constructed. With the registry class
  supplied, the admission leaves 3072 free and the termination raises \<^verbatim>\<open>TypeError\<close>
  with 3072 still free, where one admission less one termination accounts for 4096.
\<close>

theorem admit_then_terminate_leaves_quota_allocated:
  "scenario module_globals 4096
     [(''process1'', Process_init 1 ''Process 1'')]
     [Run_process ''process1'', Terminate_process ''process1''] = Not_constructed NameError \<and>
   (\<exists>s. scenario globals_with_registry 4096
          [(''process1'', Process_init 1 ''Process 1'')]
          [Run_process ''process1'', Terminate_process ''process1''] = Stopped TypeError s \<and>
        free_memory (memory_manager (supervisor s)) = 3072 \<and>
        total_memory (memory_manager (supervisor s)) = 4096 \<and>
        free_memory (memory_manager (supervisor s)) \<noteq> 4096 - (1 - 1) * 1024)"
  by (simp add: scenario_simps)

text \<open>
  C8. Scenario A on a total of 4096: admit \<^verbatim>\<open>process1\<close>, admit \<^verbatim>\<open>process2\<close>,
  terminate \<^verbatim>\<open>process1\<close>, admit \<^verbatim>\<open>process3\<close>. As the source stands the supervisor
  is not constructed. With the registry class supplied, the two admissions leave 3072 and
  then 2048 free, and the termination raises \<^verbatim>\<open>TypeError\<close>: the script stops with 2048
  free, \<^verbatim>\<open>process1\<close> still registered and still \<^verbatim>\<open>running\<close>, and \<^verbatim>\<open>process3\<close>
  never admitted.
\<close>

theorem scenario_A_stops_at_terminate:
  "scenario module_globals 4096
     [(''process1'', Process_init 1 ''Process 1''),
      (''process2'', Process_init 2 ''Process 2''),
      (''process3'', Process_init 3 ''Process 3'')]
     [Run_process ''process1'', Run_process ''process2'',
      Terminate_process ''process1'', Run_process ''process3''] = Not_constructed NameError \<and>
   (\<exists>s. scenario globals_with_registry 4096
          [(''process1'', Process_init 1 ''Process 1''),
           (''process2'', Process_init 2 ''Process 2''),
           (''process3'', Process_init 3 ''Process 3'')]
          [Run_process ''process1'', Run_process ''process2''] = Completed s \<and>
        free_memory (memory_manager (supervisor s)) = 2048) \<and>
   (\<exists>s. scenario globals_with_registry 4096
          [(''process1'', Process_init 1 ''Process 1''),
           (''process2'', Process_init 2 ''Process 2''),
           (''process3'', Process_init 3 ''Process 3'')]
          [Run_process ''process1'', Run_process ''process2'',
           Terminate_process ''process1'', Run_process ''process3''] = Stopped TypeError s \<and>
        free_memory (memory_manager (supervisor s)) = 2048 \<and>
        process_manager (supervisor s) 1 =
          Some \<lparr>pid = 1, name = ''Process 1'', status = ''running''\<rparr> \<and>
        process_manager (supervisor s) 3 = None \<and>
        variables s ''process1'' =
          Some \<lparr>pid = 1, name = ''Process 1'', status = ''running''\<rparr> \<and>
        stdout s = [''Running process: Process 1'', ''Running process: Process 2''])"
  by (simp add: scenario_simps)

subsection \<open>Files\<close>



text \<open>
  Read from left to right, the translation turns a carriage return with its line feed
  into one line feed, a carriage return with none into a line feed, and keeps every other
  character; no carriage return is left.
\<close>

lemma universal_newlines_pair:
  "universal_newlines (CR # LF # content) = LF # universal_newlines content"
  by simp

lemma universal_newlines_alone:
  "content = [] \<or> hd content \<noteq> LF \<Longrightarrow>
     universal_newlines (CR # content) = LF # universal_newlines content"
  by (cases content) auto

lemma universal_newlines_other:
  "c \<noteq> CR \<Longrightarrow> universal_newlines (c # content) = c # universal_newlines content"
  by (cases content) auto






end
